theory Spec2Isabelle
  imports Complex_Main
begin

section \<open>Values, errors and georeferencing data\<close>

text \<open>
  The model follows \<^verbatim>\<open>components/DeShifter.py\<close>. Map coordinates and pixel sizes are
  exact rationals: Python's integers and the exactly representable floats embed into them,
  and rounding of floating-point arithmetic is not modelled. Everything that the class
  imports from other packages (projection comparison, clipping, warping, the shell call)
  is a field of an environment record, so each statement below holds for whatever these
  collaborators compute.
\<close>

datatype error =
    AssertionError string
  | TypeError string
  | ValueError string
  | KeyError string
  | ZeroDivisionError
  | RuntimeError string

type_synonym axis = "rat \<times> rat"
type_synonym coord_grid = "axis \<times> axis"
type_synonym extent = "rat \<times> rat \<times> rat \<times> rat"
type_synonym gcp = "rat \<times> rat \<times> rat \<times> rat"

text \<open>A GDAL geotransform is a six-element sequence; the fields are its indices 0 to 5.\<close>

record geotransform =
  gt0 :: rat
  gt1 :: rat
  gt2 :: rat
  gt3 :: rat
  gt4 :: rat
  gt5 :: rat

text \<open>
  The attributes of a \<^verbatim>\<open>GeoArray\<close> that the class reads. \<^verbatim>\<open>footprint_poly.bounds\<close> is
  (xmin, ymin, xmax, ymax); \<^verbatim>\<open>box.boundsMap\<close> is (xmin, xmax, ymin, ymax).
\<close>

record 'a GeoArray =
  ga_arr :: 'a
  ga_geotransform :: geotransform
  ga_projection :: string
  ga_nodata :: "rat option"
  ga_xgsd :: rat
  ga_ygsd :: rat
  ga_footprint_poly_bounds :: extent
  ga_box_boundsMap :: "rat \<times> rat \<times> rat \<times> rat"
  ga_filePath :: string

text \<open>
  The dictionary \<^verbatim>\<open>coreg_results\<close>. The key \<^verbatim>\<open>'GCPList'\<close> may be absent (\<open>None\<close>);
  \<^verbatim>\<open>'updated map info'\<close> may hold a false value (\<open>None\<close>).
\<close>

record 'm coreg_results =
  cr_GCPList :: "gcp list option"
  cr_updated_map_info :: "'m option"
  cr_original_map_info :: "'m option"
  cr_reference_geotransform :: geotransform
  cr_reference_grid :: coord_grid
  cr_reference_projection :: string

text \<open>
  The value passed as \<^verbatim>\<open>out_gsd\<close>: a Python int, a float, or a tuple or list of numbers.
\<close>

datatype py_gsd = PyInt int | PyFloat rat | PySeq "rat list"

text \<open>The keyword arguments; \<open>None\<close> is an absent key, for which \<^verbatim>\<open>kwargs.get\<close>
  returns the default.\<close>

record kwargs =
  kw_path_out :: "string option"
  kw_fmt_out :: "string option"
  kw_band2process :: "nat option"
  kw_nodata :: "rat option"
  kw_align_grids :: "bool option"
  kw_tempAsENVI :: "bool option"
  kw_resamp_alg :: "string option"
  kw_warp_alg :: "string option"
  kw_cliptoextent :: "bool option"
  kw_clipextent :: "extent option"
  kw_tempDir :: "string option"
  kw_CPUs :: "nat option"
  kw_v :: "bool option"
  kw_q :: "bool option"
  kw_out_gsd :: "py_gsd option"
  kw_match_gsd :: "bool option"
  kw_target_xyGrid :: "coord_grid option"

text \<open>\<^verbatim>\<open>kwargs.get(key, default)\<close>\<close>

definition kwargs_get :: "'v option \<Rightarrow> 'v \<Rightarrow> 'v" where
  "kwargs_get given dflt = (case given of None \<Rightarrow> dflt | Some x \<Rightarrow> x)"

text \<open>The attributes of a \<^verbatim>\<open>DESHIFTER\<close> object (\<^verbatim>\<open>self.x\<close> is \<open>self_x\<close>).\<close>

record ('a, 'm) DESHIFTER =
  self_im2shift :: "'a GeoArray"
  self_shift_prj :: string
  self_shift_gt :: geotransform
  self_GCPList :: "gcp list option"
  self_updated_map_info :: 'm
  self_original_map_info :: "'m option"
  self_updated_gt :: geotransform
  self_ref_gt :: geotransform
  self_ref_grid :: coord_grid
  self_ref_prj :: string
  self_updated_projection :: string
  self_path_out :: "string option"
  self_fmt_out :: string
  self_band2process :: "nat option"
  self_nodata :: "rat option"
  self_align_grids :: bool
  self_outFmt :: string
  self_rspAlg :: string
  self_warpAlg :: string
  self_cliptoextent :: bool
  self_clipextent :: "extent option"
  self_tempDir :: string
  self_CPUs :: "nat option"
  self_v :: bool
  self_q :: bool
  self_out_grid :: coord_grid
  self_out_gsd :: "rat \<times> rat"
  self_is_shifted :: bool
  self_is_resampled :: bool
  self_tracked_errors :: "error list"
  self_arr_shifted :: "'a option"
  self_GeoArray_shifted :: "('a \<times> geotransform \<times> string) option"

text \<open>
  The collaborators imported from other packages. \<open>subcall_with_output\<close> runs the
  command on the current set of files and returns the exit code and the files afterwards;
  \<open>read_tmp\<close> stands for opening the file written by a command with \<^verbatim>\<open>gdal\<close> and
  \<^verbatim>\<open>rasterio\<close>, for all bands or for one.
\<close>

record 'a warp_call =
  w_arr :: 'a
  w_gt :: geotransform
  w_prj :: string
  w_out_prj :: string
  w_rspAlg :: nat
  w_in_nodata :: "rat option"
  w_out_nodata :: "rat option"
  w_out_gsd :: "rat \<times> rat"
  w_out_bounds :: extent
  w_gcpList :: "gcp list option"
  w_polynomialOrder :: "nat option"
  w_options :: "string option"
  w_CPUs :: "nat option"
  w_q :: bool

record gdalwarp_cmd =
  cmd_r :: string
  cmd_tr :: "rat \<times> rat"
  cmd_t_srs :: string
  cmd_of :: string
  cmd_src :: string
  cmd_dst :: string
  cmd_srcnodata :: "rat option"
  cmd_dstnodata :: "rat option"
  cmd_te :: extent

record ('a, 'm) env =
  geotransform2mapinfo :: "geotransform \<Rightarrow> string \<Rightarrow> 'm"
  mapinfo2geotransform :: "'m \<Rightarrow> geotransform"
  prj_equal :: "string \<Rightarrow> string \<Rightarrow> bool"
  is_coord_grid_equal :: "geotransform \<Rightarrow> axis \<Rightarrow> axis \<Rightarrow> bool"
  get_mapPos :: "'a \<Rightarrow> geotransform \<Rightarrow> string \<Rightarrow> extent \<Rightarrow> string \<Rightarrow> rat option
                  \<Rightarrow> 'a \<times> geotransform \<times> string"
  getitem_band :: "'a \<Rightarrow> nat \<Rightarrow> 'a"
  warp_ndarray :: "'a warp_call \<Rightarrow> 'a \<times> geotransform \<times> string"
  mkstemp :: "string \<Rightarrow> string \<Rightarrow> string \<Rightarrow> string"
  subcall_with_output :: "gdalwarp_cmd \<Rightarrow> string list \<Rightarrow> int \<times> string list"
  read_tmp :: "gdalwarp_cmd \<Rightarrow> nat option \<Rightarrow> 'a \<times> geotransform \<times> string"

text \<open>What lies outside the object: the existing files and the rasters saved so far.\<close>

record 'a world =
  files :: "string list"
  saved :: "(string \<times> string \<times> 'a \<times> geotransform \<times> string) list"

text \<open>The ordered dictionary returned by \<^verbatim>\<open>deshift_results\<close>.\<close>

record ('a, 'm) deshift_record =
  res_band :: "nat option"
  res_is_shifted :: bool
  res_is_resampled :: bool
  res_updated_map_info :: 'm
  res_updated_geotransform :: geotransform
  res_updated_projection :: string
  res_arr_shifted :: "'a option"
  res_GeoArray_shifted :: "('a \<times> geotransform \<times> string) option"

section \<open>The output grid\<close>

definition dict_rspAlg_rsp_Int :: "(string \<times> nat) list" where
  "dict_rspAlg_rsp_Int =
     [(''nearest'', 0), (''bilinear'', 1), (''cubic'', 2), (''cubic_spline'', 3),
      (''lanczos'', 4), (''average'', 5), (''mode'', 6), (''max'', 7), (''min'', 8),
      (''med'', 9), (''q1'', 10), (''q2'', 11)]"

text \<open>Python's \<^verbatim>\<open>%\<close> on numbers: the result takes the sign of the divisor.\<close>

definition py_mod :: "rat \<Rightarrow> rat \<Rightarrow> error + rat" where
  "py_mod a b = (if b = 0 then Inl ZeroDivisionError else Inr (a - b * of_int \<lfloor>a / b\<rfloor>))"

definition is_alignable :: "rat \<Rightarrow> rat \<Rightarrow> error + bool" where
  "is_alignable gsd1 gsd2 =
     (case py_mod (max gsd1 gsd2) (min gsd1 gsd2) of
        Inl e \<Rightarrow> Inl e
      | Inr r \<Rightarrow> Inr (r = 0))"

text \<open>\<^verbatim>\<open>not a(x) or not a(y)\<close> evaluates the second test only when the first
  one holds. The warning it emits is not modelled.\<close>

definition grids_alignable :: "rat \<Rightarrow> rat \<Rightarrow> rat \<Rightarrow> rat \<Rightarrow> error + bool" where
  "grids_alignable in_xgsd in_ygsd out_xgsd out_ygsd =
     (case is_alignable in_xgsd out_xgsd of
        Inl e \<Rightarrow> Inl e
      | Inr ax \<Rightarrow>
          if \<not> ax then Inr False
          else (case is_alignable in_ygsd out_ygsd of
                  Inl e \<Rightarrow> Inl e
                | Inr ay \<Rightarrow> if \<not> ay then Inr False else Inr True))"

definition get_grid :: "geotransform \<Rightarrow> rat \<Rightarrow> rat \<Rightarrow> coord_grid" where
  "get_grid gt xgsd ygsd = ((gt0 gt, gt0 gt + xgsd), (gt3 gt, gt3 gt - ygsd))"

fun isinstance_int_tuple_list :: "py_gsd \<Rightarrow> bool" where
  "isinstance_int_tuple_list (PyInt n) = True"
| "isinstance_int_tuple_list (PyFloat x) = False"
| "isinstance_int_tuple_list (PySeq xs) = True"

fun py_len :: "py_gsd \<Rightarrow> error + nat" where
  "py_len (PyInt n) =
     Inl (TypeError (''object of type '' @ CHR 0x27 # ''int'' @ CHR 0x27 # '' has no len()''))"
| "py_len (PyFloat x) =
     Inl (TypeError (''object of type '' @ CHR 0x27 # ''float'' @ CHR 0x27 # '' has no len()''))"
| "py_len (PySeq xs) = Inr (length xs)"

fun py_bool :: "py_gsd \<Rightarrow> bool" where
  "py_bool (PyInt n) = (n \<noteq> 0)"
| "py_bool (PyFloat x) = (x \<noteq> 0)"
| "py_bool (PySeq xs) = (xs \<noteq> [])"

text \<open>\<^verbatim>\<open>assert out_gsd is None or (isinstance(out_gsd, (int, tuple, list)) and
  len(out_gsd) == 2)\<close>: \<^verbatim>\<open>len\<close> is evaluated whenever the \<^verbatim>\<open>isinstance\<close> test holds.\<close>

definition assert_out_gsd :: "py_gsd option \<Rightarrow> error + unit" where
  "assert_out_gsd out_gsd =
     (case out_gsd of
        None \<Rightarrow> Inr ()
      | Some g \<Rightarrow>
          if isinstance_int_tuple_list g
          then (case py_len g of
                  Inl e \<Rightarrow> Inl e
                | Inr n \<Rightarrow> if n = 2 then Inr () else Inl (AssertionError []))
          else Inl (AssertionError []))"

text \<open>\<^verbatim>\<open>out_xgsd, out_ygsd = [out_gsd, out_gsd] if isinstance(out_gsd, int) else out_gsd\<close>\<close>

fun unpack_out_gsd :: "py_gsd \<Rightarrow> error + rat \<times> rat" where
  "unpack_out_gsd (PyInt n) = Inr (of_int n, of_int n)"
| "unpack_out_gsd (PyFloat x) = Inl (TypeError ''cannot unpack non-iterable float object'')"
| "unpack_out_gsd (PySeq [a, b]) = Inr (a, b)"
| "unpack_out_gsd (PySeq xs) = Inl (ValueError ''wrong number of values to unpack'')"

text \<open>\<^verbatim>\<open>elif out_gsd:\<close> takes the branch for a value that is given and true.\<close>

definition truthy_out_gsd :: "py_gsd option \<Rightarrow> py_gsd option" where
  "truthy_out_gsd out_gsd =
     (case out_gsd of None \<Rightarrow> None | Some g \<Rightarrow> if py_bool g then Some g else None)"

text \<open>
  \<^verbatim>\<open>_get_out_grid\<close>, with the attributes of \<^verbatim>\<open>self\<close> it reads as arguments. A
  \<^verbatim>\<open>target_xyGrid\<close> is a pair of two-sample axes here, which always passes the first
  assertion and is always true as a condition. \<^verbatim>\<open>self.align_grids and
  self._grids_alignable(...)\<close> calls the test only when \<^verbatim>\<open>align_grids\<close> holds. The
  warning about an ignored \<^verbatim>\<open>match_gsd\<close> is not modelled.
\<close>

definition get_out_grid ::
  "'a GeoArray \<Rightarrow> geotransform \<Rightarrow> coord_grid \<Rightarrow> bool \<Rightarrow> kwargs \<Rightarrow> error + coord_grid" where
  "get_out_grid im2shift ref_gt ref_grid align_grids init_kwargs =
     (let out_gsd = kw_out_gsd init_kwargs;
          match_gsd = kwargs_get (kw_match_gsd init_kwargs) False;
          out_grid = kw_target_xyGrid init_kwargs
      in case assert_out_gsd out_gsd of
           Inl e \<Rightarrow> Inl e
         | Inr _ \<Rightarrow>
            (let ref_xgsd = snd (fst ref_grid) - fst (fst ref_grid);
                 ref_ygsd = snd (snd ref_grid) - fst (snd ref_grid)
             in case out_grid of
                  Some g \<Rightarrow> Inr g
                | None \<Rightarrow>
                   (case truthy_out_gsd out_gsd of
                      Some g \<Rightarrow>
                        (case unpack_out_gsd g of
                           Inl e \<Rightarrow> Inl e
                         | Inr (out_xgsd, out_ygsd) \<Rightarrow>
                             if \<not> align_grids
                             then Inr (get_grid (ga_geotransform im2shift) out_xgsd out_ygsd)
                             else (case grids_alignable (ga_xgsd im2shift) (ga_ygsd im2shift)
                                          out_xgsd out_ygsd of
                                     Inl e \<Rightarrow> Inl e
                                   | Inr True \<Rightarrow> Inr (get_grid ref_gt out_xgsd out_ygsd)
                                   | Inr False \<Rightarrow>
                                       Inr (get_grid (ga_geotransform im2shift) out_xgsd out_ygsd)))
                    | None \<Rightarrow>
                        if match_gsd
                        then (if align_grids then Inr ref_grid
                              else Inr (get_grid (ga_geotransform im2shift) ref_xgsd ref_ygsd))
                        else (if \<not> align_grids
                              then Inr (get_grid (ga_geotransform im2shift)
                                          (ga_xgsd im2shift) (ga_ygsd im2shift))
                              else (case grids_alignable (ga_xgsd im2shift) (ga_ygsd im2shift)
                                           ref_xgsd ref_ygsd of
                                      Inl e \<Rightarrow> Inl e
                                    | Inr True \<Rightarrow>
                                        Inr (get_grid ref_gt (ga_xgsd im2shift) (ga_ygsd im2shift))
                                    | Inr False \<Rightarrow>
                                        Inr (get_grid (ga_geotransform im2shift)
                                               (ga_xgsd im2shift) (ga_ygsd im2shift)))))))"

section \<open>Construction\<close>

text \<open>
  \<^verbatim>\<open>__init__\<close> for an image that is already a \<^verbatim>\<open>GeoArray\<close>. The two assertions on the
  option names come after the output grid has been derived.
\<close>

definition DESHIFTER_init ::
  "('a, 'm) env \<Rightarrow> 'a GeoArray \<Rightarrow> 'm coreg_results \<Rightarrow> kwargs \<Rightarrow> error + ('a, 'm) DESHIFTER" where
  "DESHIFTER_init env im2shift coreg_results kwargs =
     (let shift_prj = ga_projection im2shift;
          shift_gt = ga_geotransform im2shift;
          mapI = cr_updated_map_info coreg_results;
          updated_map_info =
            (case mapI of Some m \<Rightarrow> m | None \<Rightarrow> geotransform2mapinfo env shift_gt shift_prj);
          updated_gt =
            (case mapI of Some m \<Rightarrow> mapinfo2geotransform env updated_map_info | None \<Rightarrow> shift_gt);
          ref_gt = cr_reference_geotransform coreg_results;
          ref_grid = cr_reference_grid coreg_results;
          ref_prj = cr_reference_projection coreg_results;
          align_grids = kwargs_get (kw_align_grids kwargs) False;
          tempAsENVI = kwargs_get (kw_tempAsENVI kwargs) False;
          rspAlg = kwargs_get (kw_resamp_alg kwargs) ''cubic'';
          warpAlg = kwargs_get (kw_warp_alg kwargs) ''GDAL_lib'';
          v = kwargs_get (kw_v kwargs) False;
          q = (if \<not> v then (kwargs_get (kw_q kwargs) False) else False)
      in case get_out_grid im2shift ref_gt ref_grid align_grids kwargs of
           Inl e \<Rightarrow> Inl e
         | Inr out_grid \<Rightarrow>
             if rspAlg \<notin> set (map fst dict_rspAlg_rsp_Int)
             then Inl (AssertionError
                         (CHR 0x27 # rspAlg @ CHR 0x27 # '' is not a supported resampling algorithm.''))
             else if warpAlg \<notin> set [''GDAL_cmd'', ''GDAL_lib'']
             then Inl (AssertionError [])
             else Inr \<lparr>
               self_im2shift = im2shift,
               self_shift_prj = shift_prj,
               self_shift_gt = shift_gt,
               self_GCPList = cr_GCPList coreg_results,
               self_updated_map_info = updated_map_info,
               self_original_map_info = cr_original_map_info coreg_results,
               self_updated_gt = updated_gt,
               self_ref_gt = ref_gt,
               self_ref_grid = ref_grid,
               self_ref_prj = ref_prj,
               self_updated_projection = ref_prj,
               self_path_out = kw_path_out kwargs,
               self_fmt_out = kwargs_get (kw_fmt_out kwargs) ''ENVI'',
               self_band2process = kw_band2process kwargs,
               self_nodata = (case kw_nodata kwargs of None \<Rightarrow> ga_nodata im2shift | Some n \<Rightarrow> Some n),
               self_align_grids = align_grids,
               self_outFmt = (if \<not> tempAsENVI then ''VRT'' else ''ENVI''),
               self_rspAlg = rspAlg,
               self_warpAlg = warpAlg,
               self_cliptoextent = kwargs_get (kw_cliptoextent kwargs) True,
               self_clipextent = kw_clipextent kwargs,
               self_tempDir = kwargs_get (kw_tempDir kwargs) ''/dev/shm/'',
               self_CPUs = kw_CPUs kwargs,
               self_v = v,
               self_q = q,
               self_out_grid = out_grid,
               self_out_gsd = (\<bar>snd (fst out_grid) - fst (fst out_grid)\<bar>,
                               \<bar>snd (snd out_grid) - fst (snd out_grid)\<bar>),
               self_is_shifted = False,
               self_is_resampled = False,
               self_tracked_errors = [],
               self_arr_shifted = None,
               self_GeoArray_shifted = None \<rparr>)"

section \<open>The clip extent\<close>

datatype roundAlg = RoundOn | RoundOff

text \<open>
  Modelled from the spec: \<^verbatim>\<open>find_nearest\<close> is imported from
  \<^verbatim>\<open>py_tools_ds.ptds.numeric.vector\<close> and is not part of the sources. With
  \<^verbatim>\<open>extrapolate=True\<close> the two samples of an axis are extended along their pitch in both
  directions (Section 4.3), so the candidates are the lines \<open>lo + k * pitch\<close> for integer
  \<open>k\<close>, \<open>lo\<close> being the smaller sample. The direction of the two rounding modes is the one
  the source states at the call site, "in case of odd input coords the output coords are
  moved INSIDE the input array", and Section 2 repeats ("inward for min corners ... toward
  interior for max corners"): \<^verbatim>\<open>'on'\<close>, used for the min corners, gives the nearest
  line at or above the value, and \<^verbatim>\<open>'off'\<close>, used for the max corners, the nearest line at
  or below it. A value on a line is returned unchanged by both. The pitch is assumed to
  be non-zero wherever the result matters.
\<close>

definition find_nearest :: "axis \<Rightarrow> rat \<Rightarrow> roundAlg \<Rightarrow> rat" where
  "find_nearest array val alg =
     (let lo = min (fst array) (snd array);
          increment = \<bar>snd array - fst array\<bar>
      in case alg of
           RoundOn \<Rightarrow> lo + increment * of_int \<lceil>(val - lo) / increment\<rceil>
         | RoundOff \<Rightarrow> lo + increment * of_int \<lfloor>(val - lo) / increment\<rfloor>)"

text \<open>
  \<^verbatim>\<open>_get_out_extent\<close> in two steps: the choice of \<^verbatim>\<open>self.clipextent\<close>, which the method
  stores in the object, and the snapping of its four coordinates.
\<close>

definition resolve_clipextent :: "('a, 'm) DESHIFTER \<Rightarrow> extent" where
  "resolve_clipextent self =
     (if self_cliptoextent self \<and> self_clipextent self = None
      then ga_footprint_poly_bounds (self_im2shift self)
      else (case ga_box_boundsMap (self_im2shift self) of
              (xmin, xmax, ymin, ymax) \<Rightarrow> (xmin, ymin, xmax, ymax)))"

definition snap_clipextent :: "coord_grid \<Rightarrow> extent \<Rightarrow> extent" where
  "snap_clipextent out_grid clipextent =
     (case clipextent of
        (xmin, ymin, xmax, ymax) \<Rightarrow>
          (find_nearest (fst out_grid) xmin RoundOn,
           find_nearest (snd out_grid) ymin RoundOn,
           find_nearest (fst out_grid) xmax RoundOff,
           find_nearest (fst out_grid) ymax RoundOff))"

definition get_out_extent :: "('a, 'm) DESHIFTER \<Rightarrow> extent \<times> ('a, 'm) DESHIFTER" where
  "get_out_extent self =
     (let clipextent = resolve_clipextent self
      in (snap_clipextent (self_out_grid self) clipextent,
          self\<lparr>self_clipextent := Some clipextent\<rparr>))"

text \<open>A coordinate lies on a line of an axis when it is a whole number of pitches away
  from the first sample.\<close>

definition on_grid_line :: "axis \<Rightarrow> rat \<Rightarrow> bool" where
  "on_grid_line array val =
     (if snd array = fst array then val = fst array
      else (let k = (val - fst array) / (snd array - fst array) in of_int \<lfloor>k\<rfloor> = k))"

section \<open>Shift correction\<close>

definition deshift_results :: "('a, 'm) DESHIFTER \<Rightarrow> ('a, 'm) deshift_record" where
  "deshift_results self =
     \<lparr> res_band = self_band2process self,
       res_is_shifted = self_is_shifted self,
       res_is_resampled = self_is_resampled self,
       res_updated_map_info = self_updated_map_info self,
       res_updated_geotransform = self_shift_gt self,
       res_updated_projection = self_updated_projection self,
       res_arr_shifted = self_arr_shifted self,
       res_GeoArray_shifted = self_GeoArray_shifted self \<rparr>"

text \<open>A call returns or raises; either way the object and the files are left as the
  call changed them.\<close>

type_synonym ('a, 'm) outcome =
  "(error + ('a, 'm) deshift_record) \<times> ('a, 'm) DESHIFTER \<times> 'a world"

text \<open>\<^verbatim>\<open>if self.path_out: GeoArray(arr, gt, prj).save(self.path_out, fmt=self.fmt_out)\<close>\<close>

definition save_if_path_out ::
  "('a, 'm) DESHIFTER \<Rightarrow> 'a \<Rightarrow> geotransform \<Rightarrow> string \<Rightarrow> 'a world \<Rightarrow> 'a world" where
  "save_if_path_out self a gt prj world =
     (case self_path_out self of
        None \<Rightarrow> world
      | Some p \<Rightarrow>
          if p = [] then world
          else world\<lparr>saved := saved world @ [(p, self_fmt_out self, a, gt, prj)]\<rparr>)"

text \<open>The condition of the first branch of \<^verbatim>\<open>correct_shifts\<close>.\<close>

definition no_resampling_needed :: "('a, 'm) env \<Rightarrow> ('a, 'm) DESHIFTER \<Rightarrow> bool" where
  "no_resampling_needed env self =
     (prj_equal env (self_ref_prj self) (self_shift_prj self)
      \<and> is_coord_grid_equal env (self_shift_gt self)
            (fst (self_out_grid self)) (snd (self_out_grid self))
      \<and> \<not> self_align_grids self)"

definition no_resampling_path ::
  "('a, 'm) env \<Rightarrow> ('a, 'm) DESHIFTER \<Rightarrow> 'a world \<Rightarrow> ('a, 'm) outcome" where
  "no_resampling_path env self world =
     (let self1 = self\<lparr>self_is_shifted := True, self_is_resampled := False\<rparr>;
          (ext, self2) = get_out_extent self1;
          (a, self3) =
            (if self_cliptoextent self2
             then (case get_mapPos env (ga_arr (self_im2shift self2)) (self_updated_gt self2)
                          (self_shift_prj self2) ext (self_shift_prj self2) (self_nodata self2) of
                     (a, gt, prj) \<Rightarrow>
                       (a, self2\<lparr>self_arr_shifted := Some a,
                                 self_updated_gt := gt,
                                 self_updated_projection := prj,
                                 self_updated_map_info := geotransform2mapinfo env gt prj\<rparr>))
             else (ga_arr (self_im2shift self2),
                   self2\<lparr>self_arr_shifted := Some (ga_arr (self_im2shift self2))\<rparr>));
          self4 = self3\<lparr>self_GeoArray_shifted :=
                          Some (a, self_shift_gt self3, self_updated_projection self3)\<rparr>
      in (Inr (deshift_results self4), self4,
          save_if_path_out self4 a (self_updated_gt self4) (self_updated_projection self4) world))"

text \<open>The external-process strategy. \<^verbatim>\<open>mkstemp\<close> creates the file it names; the files
  are deleted on both branches if they still exist.\<close>

definition gdalwarp_command :: "('a, 'm) DESHIFTER \<Rightarrow> string \<Rightarrow> extent \<Rightarrow> gdalwarp_cmd" where
  "gdalwarp_command self path_tmp ext =
     \<lparr> cmd_r = self_rspAlg self,
       cmd_tr = self_out_gsd self,
       cmd_t_srs = self_ref_prj self,
       cmd_of = self_outFmt self,
       cmd_src = ga_filePath (self_im2shift self),
       cmd_dst = path_tmp,
       cmd_srcnodata = self_nodata self,
       cmd_dstnodata = self_nodata self,
       cmd_te = ext \<rparr>"

definition run_gdalwarp ::
  "('a, 'm) env \<Rightarrow> ('a, 'm) DESHIFTER \<Rightarrow> 'a world
     \<Rightarrow> string \<times> gdalwarp_cmd \<times> ('a, 'm) DESHIFTER \<times> int \<times> string list" where
  "run_gdalwarp env self world =
     (let path_tmp = mkstemp env ''CoReg_Sat'' (self_outFmt self) (self_tempDir self);
          files1 = List.insert path_tmp (files world);
          (ext, self1) = get_out_extent self;
          cmd = gdalwarp_command self1 path_tmp ext;
          (exitcode, files2) = subcall_with_output env cmd files1
      in (path_tmp, cmd, self1, exitcode, files2))"

definition resampling_GDAL_cmd ::
  "('a, 'm) env \<Rightarrow> ('a, 'm) DESHIFTER \<Rightarrow> 'a world \<Rightarrow> ('a, 'm) outcome" where
  "resampling_GDAL_cmd env self world =
     (case run_gdalwarp env self world of
        (path_tmp, cmd, self1, exitcode, files2) \<Rightarrow>
          if exitcode \<noteq> 1 \<and> path_tmp \<in> set files2
          then (case read_tmp env cmd (self_band2process self1) of
                  (a, gt, prj) \<Rightarrow>
                    (let self2 = self1\<lparr>self_shift_gt := gt,
                                       self_shift_prj := prj,
                                       self_updated_map_info := geotransform2mapinfo env gt prj,
                                       self_arr_shifted := Some a,
                                       self_GeoArray_shifted := Some (a, gt, prj),
                                       self_is_shifted := True,
                                       self_is_resampled := True\<rparr>
                     in (Inr (deshift_results self2), self2,
                         world\<lparr>files := removeAll path_tmp files2\<rparr>)))
          else (let self2 = self1\<lparr>self_tracked_errors :=
                                     self_tracked_errors self1 @ [RuntimeError ''Resampling failed.'']\<rparr>
                in (Inl (last (self_tracked_errors self2)), self2,
                    world\<lparr>files := removeAll path_tmp files2\<rparr>)))"

text \<open>The in-process strategy: the arguments of \<^verbatim>\<open>warp_ndarray\<close> first, with the
  object as it is when the call is made, then the call and the updates. \<^verbatim>\<open>if not
  self.GCPList\<close> holds for an absent list and for an empty one; \<^verbatim>\<open>if self.band2process\<close>
  fails for no band and for band 0.\<close>

definition GDAL_lib_warp_call ::
  "('a, 'm) env \<Rightarrow> ('a, 'm) DESHIFTER \<Rightarrow> (error \<times> ('a, 'm) DESHIFTER) + ('a warp_call \<times> ('a, 'm) DESHIFTER)" where
  "GDAL_lib_warp_call env self =
     (let in_arr = (case self_band2process self of
                      None \<Rightarrow> ga_arr (self_im2shift self)
                    | Some b \<Rightarrow> if b = 0 then ga_arr (self_im2shift self)
                                else getitem_band env (ga_arr (self_im2shift self)) b);
          self1 = (if self_GCPList self = None \<or> self_GCPList self = Some []
                   then self\<lparr>self_shift_gt := (self_shift_gt self)
                                \<lparr>gt0 := gt0 (self_updated_gt self), gt3 := gt3 (self_updated_gt self)\<rparr>\<rparr>
                   else self)
      in case map_of dict_rspAlg_rsp_Int (self_rspAlg self1) of
           None \<Rightarrow> Inl (KeyError (self_rspAlg self1), self1)
         | Some code \<Rightarrow>
             (let (ext, self2) = get_out_extent self1
              in Inr (\<lparr> w_arr = in_arr,
                        w_gt = self_shift_gt self1,
                        w_prj = self_shift_prj self1,
                        w_out_prj = self_ref_prj self1,
                        w_rspAlg = code,
                        w_in_nodata = self_nodata self1,
                        w_out_nodata = self_nodata self1,
                        w_out_gsd = self_out_gsd self1,
                        w_out_bounds = ext,
                        w_gcpList = self_GCPList self1,
                        w_polynomialOrder = None,
                        w_options = None,
                        w_CPUs = self_CPUs self1,
                        w_q = self_q self1 \<rparr>, self2)))"

definition resampling_GDAL_lib ::
  "('a, 'm) env \<Rightarrow> ('a, 'm) DESHIFTER \<Rightarrow> 'a world \<Rightarrow> ('a, 'm) outcome" where
  "resampling_GDAL_lib env self world =
     (case GDAL_lib_warp_call env self of
        Inl (e, self1) \<Rightarrow> (Inl e, self1, world)
      | Inr (call, self2) \<Rightarrow>
          (case warp_ndarray env call of
             (out_arr, out_gt, out_prj) \<Rightarrow>
               (let mi = geotransform2mapinfo env out_gt out_prj;
                    self3 = self2\<lparr>self_updated_projection := out_prj,
                                  self_arr_shifted := Some out_arr,
                                  self_updated_map_info := mi,
                                  self_shift_gt := mapinfo2geotransform env mi,
                                  self_GeoArray_shifted :=
                                    Some (out_arr, mapinfo2geotransform env mi, out_prj),
                                  self_is_shifted := True,
                                  self_is_resampled := True\<rparr>
                in (Inr (deshift_results self3), self3,
                    save_if_path_out self3 out_arr out_gt out_prj world))))"

definition resampling_path ::
  "('a, 'm) env \<Rightarrow> ('a, 'm) DESHIFTER \<Rightarrow> 'a world \<Rightarrow> ('a, 'm) outcome" where
  "resampling_path env self world =
     (if self_warpAlg self = ''GDAL_cmd'' then resampling_GDAL_cmd env self world
      else if self_warpAlg self = ''GDAL_lib'' then resampling_GDAL_lib env self world
      else (Inr (deshift_results self), self, world))"

definition correct_shifts ::
  "('a, 'm) env \<Rightarrow> ('a, 'm) DESHIFTER \<Rightarrow> 'a world \<Rightarrow> ('a, 'm) outcome" where
  "correct_shifts env self world =
     (if no_resampling_needed env self
      then no_resampling_path env self world
      else resampling_path env self world)"

section \<open>A concrete setting\<close>

text \<open>
  An image of 20 by 20 pixels of size 10 with its upper left corner at (0, 200), whose
  valid data cover (12, 8) to (188, 193); a registration result that moves the origin to
  (3, 202); and collaborators that behave as their names say: map info is the pair of
  geotransform and projection, clipping and warping return a raster whose origin is the
  upper left corner of the requested extent, and an array is represented by the list of
  extents cut out of the source.
\<close>

definition example_gt :: geotransform where
  "example_gt = \<lparr> gt0 = 0, gt1 = 10, gt2 = 0, gt3 = 200, gt4 = 0, gt5 = - 10 \<rparr>"

definition example_image :: "extent list GeoArray" where
  "example_image =
     \<lparr> ga_arr = [],
       ga_geotransform = example_gt,
       ga_projection = ''EPSG:32633'',
       ga_nodata = Some 0,
       ga_xgsd = 10,
       ga_ygsd = 10,
       ga_footprint_poly_bounds = (12, 8, 188, 193),
       ga_box_boundsMap = (0, 200, 0, 200),
       ga_filePath = ''/data/image.bsq'' \<rparr>"

definition example_coreg :: "(geotransform \<times> string) coreg_results" where
  "example_coreg =
     \<lparr> cr_GCPList = None,
       cr_updated_map_info = Some (example_gt\<lparr>gt0 := 3, gt3 := 202\<rparr>, ''EPSG:32633''),
       cr_original_map_info = Some (example_gt, ''EPSG:32633''),
       cr_reference_geotransform = example_gt\<lparr>gt0 := 0, gt3 := 300\<rparr>,
       cr_reference_grid = ((0, 10), (300, 290)),
       cr_reference_projection = ''EPSG:32633'' \<rparr>"

definition no_kwargs :: kwargs where
  "no_kwargs =
     \<lparr> kw_path_out = None, kw_fmt_out = None, kw_band2process = None, kw_nodata = None,
       kw_align_grids = None, kw_tempAsENVI = None, kw_resamp_alg = None, kw_warp_alg = None,
       kw_cliptoextent = None, kw_clipextent = None, kw_tempDir = None, kw_CPUs = None,
       kw_v = None, kw_q = None, kw_out_gsd = None, kw_match_gsd = None,
       kw_target_xyGrid = None \<rparr>"

definition example_coord_grid_equal :: "geotransform \<Rightarrow> axis \<Rightarrow> axis \<Rightarrow> bool" where
  "example_coord_grid_equal gt xgrid ygrid =
     (on_grid_line xgrid (gt0 gt) \<and> on_grid_line ygrid (gt3 gt)
      \<and> gt1 gt = \<bar>snd xgrid - fst xgrid\<bar> \<and> \<bar>gt5 gt\<bar> = \<bar>snd ygrid - fst ygrid\<bar>)"

definition example_env :: "int \<Rightarrow> (extent list, geotransform \<times> string) env" where
  "example_env exitcode =
     \<lparr> geotransform2mapinfo = (\<lambda>gt prj. (gt, prj)),
       mapinfo2geotransform = fst,
       prj_equal = (=),
       is_coord_grid_equal = example_coord_grid_equal,
       get_mapPos = (\<lambda>a gt prj ext out_prj fillVal.
                       (a @ [ext], gt\<lparr>gt0 := fst ext, gt3 := snd (snd (snd ext))\<rparr>, out_prj)),
       getitem_band = (\<lambda>a b. a),
       warp_ndarray = (\<lambda>c. (w_arr c @ [w_out_bounds c],
                             \<lparr> gt0 = fst (w_out_bounds c), gt1 = fst (w_out_gsd c), gt2 = 0,
                               gt3 = snd (snd (snd (w_out_bounds c))), gt4 = 0,
                               gt5 = - snd (w_out_gsd c) \<rparr>,
                             w_out_prj c)),
       mkstemp = (\<lambda>prefix suffix dir. dir @ prefix @ ''0001'' @ suffix),
       subcall_with_output = (\<lambda>cmd fs. (exitcode, fs)),
       read_tmp = (\<lambda>cmd band. ([cmd_te cmd],
                                 \<lparr> gt0 = fst (cmd_te cmd), gt1 = fst (cmd_tr cmd), gt2 = 0,
                                   gt3 = snd (snd (snd (cmd_te cmd))), gt4 = 0,
                                   gt5 = - snd (cmd_tr cmd) \<rparr>,
                                 cmd_t_srs cmd)) \<rparr>"

definition empty_world :: "extent list world" where
  "empty_world = \<lparr> files = [], saved = [] \<rparr>"

text \<open>The object built from the example image with the given registration result and
  keyword arguments, when the constructor returns one.\<close>

definition example_engine ::
  "(geotransform \<times> string) coreg_results \<Rightarrow> kwargs
     \<Rightarrow> (extent list, geotransform \<times> string) DESHIFTER" where
  "example_engine cr kw = projr (DESHIFTER_init (example_env 0) example_image cr kw)"

section \<open>The clip extent: properties\<close>

lemma find_nearest_on_bounds:
  assumes "fst array \<noteq> snd array"
  shows "val \<le> find_nearest array val RoundOn"
    and "find_nearest array val RoundOn - val < \<bar>snd array - fst array\<bar>"
proof -
  define lo where "lo = min (fst array) (snd array)"
  define inc where "inc = \<bar>snd array - fst array\<bar>"
  define k where "k = (val - lo) / inc"
  have pos: "0 < inc" using assms by (simp add: inc_def)
  have eq: "find_nearest array val RoundOn = lo + inc * of_int \<lceil>k\<rceil>"
    by (simp add: find_nearest_def lo_def inc_def k_def Let_def)
  have kinc: "inc * k = val - lo" using pos by (simp add: k_def)
  have "inc * k \<le> inc * of_int \<lceil>k\<rceil>"
    using pos by simp
  then show "val \<le> find_nearest array val RoundOn" using kinc eq by simp
  have "of_int \<lceil>k\<rceil> < k + 1" by linarith
  then have "inc * of_int \<lceil>k\<rceil> < inc * (k + 1)" using pos by simp
  then have "inc * of_int \<lceil>k\<rceil> < val - lo + inc" using kinc by (simp add: algebra_simps)
  then show "find_nearest array val RoundOn - val < \<bar>snd array - fst array\<bar>"
    using eq by (simp add: inc_def)
qed

lemma find_nearest_off_bounds:
  assumes "fst array \<noteq> snd array"
  shows "find_nearest array val RoundOff \<le> val"
    and "val - find_nearest array val RoundOff < \<bar>snd array - fst array\<bar>"
proof -
  define lo where "lo = min (fst array) (snd array)"
  define inc where "inc = \<bar>snd array - fst array\<bar>"
  define k where "k = (val - lo) / inc"
  have pos: "0 < inc" using assms by (simp add: inc_def)
  have eq: "find_nearest array val RoundOff = lo + inc * of_int \<lfloor>k\<rfloor>"
    by (simp add: find_nearest_def lo_def inc_def k_def Let_def)
  have kinc: "inc * k = val - lo" using pos by (simp add: k_def)
  have "inc * of_int \<lfloor>k\<rfloor> \<le> inc * k"
    using pos by simp
  then show "find_nearest array val RoundOff \<le> val" using kinc eq by simp
  have "k - 1 < of_int \<lfloor>k\<rfloor>" by linarith
  then have "inc * (k - 1) < inc * of_int \<lfloor>k\<rfloor>" using pos by simp
  then have "val - lo - inc < inc * of_int \<lfloor>k\<rfloor>" using kinc by (simp add: algebra_simps)
  then show "val - find_nearest array val RoundOff < \<bar>snd array - fst array\<bar>"
    using eq by (simp add: inc_def)
qed

text \<open>
  C1. A caller who supplies \<^verbatim>\<open>clipextent\<close> expects these coordinates to be the extent
  that is snapped. The method takes the \<^verbatim>\<open>else\<close> branch whenever \<^verbatim>\<open>clipextent\<close> is
  given and overwrites it with the bounding box of the image: for the example image and
  \<^verbatim>\<open>clipextent=(5, 5, 95, 95)\<close> the object is built with the supplied extent, the resolved
  extent is the box (0, 0, 200, 200), and so is the returned one, which is not what
  snapping the supplied extent gives.
\<close>

theorem explicit_clipextent_replaced_by_box:
  "\<not> isl (DESHIFTER_init (example_env 0) example_image example_coreg
            (no_kwargs\<lparr>kw_clipextent := Some (5, 5, 95, 95)\<rparr>))
   \<and> self_clipextent
        (example_engine example_coreg (no_kwargs\<lparr>kw_clipextent := Some (5, 5, 95, 95)\<rparr>))
       = Some (5, 5, 95, 95)
   \<and> resolve_clipextent
        (example_engine example_coreg (no_kwargs\<lparr>kw_clipextent := Some (5, 5, 95, 95)\<rparr>))
       = (0, 0, 200, 200)
   \<and> fst (get_out_extent
        (example_engine example_coreg (no_kwargs\<lparr>kw_clipextent := Some (5, 5, 95, 95)\<rparr>)))
       = (0, 0, 200, 200)
   \<and> fst (get_out_extent
        (example_engine example_coreg (no_kwargs\<lparr>kw_clipextent := Some (5, 5, 95, 95)\<rparr>)))
       \<noteq> snap_clipextent
            (self_out_grid
              (example_engine example_coreg (no_kwargs\<lparr>kw_clipextent := Some (5, 5, 95, 95)\<rparr>)))
            (5, 5, 95, 95)"
  by code_simp

text \<open>
  C2, as stated, fails: snapping (5, 5, 95, 95) onto a grid of pitch 10 through 0 moves
  xmin up to 10 and xmax down to 90, and the result is not (0, 0, 100, 100).
\<close>

theorem snap_scenario_counterexample:
  "\<not> (fst (snap_clipextent ((0, 10), (0, - 10)) (5, 5, 95, 95)) \<le> 5)
   \<and> \<not> (95 \<le> fst (snd (snd (snap_clipextent ((0, 10), (0, - 10)) (5, 5, 95, 95)))))
   \<and> snap_clipextent ((0, 10), (0, - 10)) (5, 5, 95, 95) \<noteq> (0, 0, 100, 100)"
  by code_simp

text \<open>
  C2, amended. For every resolved clip extent and every output grid of non-zero pitch,
  snapping never enlarges the requested area: the snapped xmin and ymin are greater than
  or equal to the values before snapping and the snapped xmax and ymax are less than or
  equal to them; xmin, ymin and xmax move by less than one pitch of the axis they are
  snapped to, also when the value lies outside the two grid samples. In particular
  (5, 5, 95, 95) on a grid of pitch 10 through 0 snaps to (10, 10, 90, 90).
\<close>

theorem snap_moves_corners_inside:
  "(fst (fst out_grid) \<noteq> snd (fst out_grid) \<and> fst (snd out_grid) \<noteq> snd (snd out_grid)
    \<and> snap_clipextent out_grid (xmin, ymin, xmax, ymax) = (xmin', ymin', xmax', ymax')
    \<longrightarrow> xmin \<le> xmin' \<and> xmin' - xmin < \<bar>snd (fst out_grid) - fst (fst out_grid)\<bar>
      \<and> ymin \<le> ymin' \<and> ymin' - ymin < \<bar>snd (snd out_grid) - fst (snd out_grid)\<bar>
      \<and> xmax' \<le> xmax \<and> xmax - xmax' < \<bar>snd (fst out_grid) - fst (fst out_grid)\<bar>
      \<and> ymax' \<le> ymax)
   \<and> snap_clipextent ((0, 10), (0, - 10)) (5, 5, 95, 95) = (10, 10, 90, 90)"
proof (intro conjI impI)
  show "snap_clipextent ((0, 10), (0, - 10)) (5, 5, 95, 95) = (10, 10, 90, 90)"
    by code_simp
next
  assume h: "fst (fst out_grid) \<noteq> snd (fst out_grid) \<and> fst (snd out_grid) \<noteq> snd (snd out_grid)
    \<and> snap_clipextent out_grid (xmin, ymin, xmax, ymax) = (xmin', ymin', xmax', ymax')"
  then have x: "fst (fst out_grid) \<noteq> snd (fst out_grid)"
    and y: "fst (snd out_grid) \<noteq> snd (snd out_grid)"
    and a: "xmin' = find_nearest (fst out_grid) xmin RoundOn"
    and b: "ymin' = find_nearest (snd out_grid) ymin RoundOn"
    and c: "xmax' = find_nearest (fst out_grid) xmax RoundOff"
    and d: "ymax' = find_nearest (fst out_grid) ymax RoundOff"
    by (simp_all add: snap_clipextent_def)
  show "xmin \<le> xmin'" unfolding a by (rule find_nearest_on_bounds(1) [OF x])
  show "xmin' - xmin < \<bar>snd (fst out_grid) - fst (fst out_grid)\<bar>"
    unfolding a by (rule find_nearest_on_bounds(2) [OF x])
  show "ymin \<le> ymin'" unfolding b by (rule find_nearest_on_bounds(1) [OF y])
  show "ymin' - ymin < \<bar>snd (snd out_grid) - fst (snd out_grid)\<bar>"
    unfolding b by (rule find_nearest_on_bounds(2) [OF y])
  show "xmax' \<le> xmax" unfolding c by (rule find_nearest_off_bounds(1) [OF x])
  show "xmax - xmax' < \<bar>snd (fst out_grid) - fst (fst out_grid)\<bar>"
    unfolding c by (rule find_nearest_off_bounds(2) [OF x])
  show "ymax' \<le> ymax" unfolding d by (rule find_nearest_off_bounds(1) [OF x])
qed

text \<open>The footprint of the example image on the grid of the example image.\<close>

theorem snap_moves_corners_inside_witness:
  "snap_clipextent ((0, 10), (200, 190)) (12, 8, 188, 193) = (20, 10, 180, 190)
   \<and> (12::rat) \<le> 20 \<and> (20::rat) - 12 < \<bar>10 - 0\<bar> \<and> (8::rat) \<le> 10 \<and> (180::rat) \<le> 188
   \<and> (190::rat) \<le> 193"
proof -
  have e: "snap_clipextent ((0, 10), (200, 190)) (12, 8, 188, 193) = (20, 10, 180, 190)"
    by code_simp
  have h: "fst (fst ((0::rat, 10::rat), (200::rat, 190::rat))) \<noteq> snd (fst ((0, 10), (200, 190)))
           \<and> fst (snd ((0::rat, 10::rat), (200::rat, 190::rat))) \<noteq> snd (snd ((0, 10), (200, 190)))
           \<and> snap_clipextent ((0, 10), (200, 190)) (12, 8, 188, 193) = (20, 10, 180, 190)"
    using e by simp
  from snap_moves_corners_inside [of "((0, 10), (200, 190))" 12 8 188 193 20 10 180 190] h e
  show ?thesis by simp
qed

text \<open>
  C3. Each coordinate of the returned extent should lie on a line of its own axis of the
  output grid. \<^verbatim>\<open>ymax\<close> is snapped to \<^verbatim>\<open>self.out_grid[0]\<close>, the x axis, where
  \<^verbatim>\<open>ymin\<close> uses \<^verbatim>\<open>self.out_grid[1]\<close>. For an image with its upper left corner at
  (0, 205) and pixels of size 10 the output grid is ((0, 10), (205, 195)), whose y lines
  are 5, 15, ..., 185, 195, 205; the returned extent is (20, 15, 180, 190), and 190 is not
  on a y line.
\<close>

theorem ymax_snapped_to_x_grid:
  "\<not> isl (DESHIFTER_init (example_env 0)
             (example_image\<lparr>ga_geotransform := example_gt\<lparr>gt3 := 205\<rparr>,
                            ga_footprint_poly_bounds := (12, 13, 188, 198),
                            ga_box_boundsMap := (0, 200, 5, 205)\<rparr>)
             example_coreg no_kwargs)
   \<and> self_out_grid (projr (DESHIFTER_init (example_env 0)
             (example_image\<lparr>ga_geotransform := example_gt\<lparr>gt3 := 205\<rparr>,
                            ga_footprint_poly_bounds := (12, 13, 188, 198),
                            ga_box_boundsMap := (0, 200, 5, 205)\<rparr>)
             example_coreg no_kwargs))
      = ((0, 10), (205, 195))
   \<and> fst (get_out_extent (projr (DESHIFTER_init (example_env 0)
             (example_image\<lparr>ga_geotransform := example_gt\<lparr>gt3 := 205\<rparr>,
                            ga_footprint_poly_bounds := (12, 13, 188, 198),
                            ga_box_boundsMap := (0, 200, 5, 205)\<rparr>)
             example_coreg no_kwargs)))
      = (20, 15, 180, 190)
   \<and> on_grid_line (205, 195) 15
   \<and> \<not> on_grid_line (205, 195) 190"
  by code_simp

section \<open>Construction: properties\<close>

text \<open>
  C5. A scalar \<^verbatim>\<open>out_gsd\<close> is meant to be accepted: the assertion lists \<^verbatim>\<open>int\<close> among
  the accepted types and the next statement turns an \<^verbatim>\<open>int\<close> into a pair. But the
  assertion goes on to take \<^verbatim>\<open>len(out_gsd)\<close>, which raises \<^verbatim>\<open>TypeError\<close> for an
  \<^verbatim>\<open>int\<close>: with \<^verbatim>\<open>out_gsd=20\<close> and \<^verbatim>\<open>align_grids=True\<close> on an image of pixel size 10
  no object is built. The pair (20, 20) gives the grid the claim describes, anchored at
  the origin (0, 300) of the reference.
\<close>

theorem scalar_out_gsd_rejected:
  "DESHIFTER_init (example_env 0) example_image example_coreg
     (no_kwargs\<lparr>kw_out_gsd := Some (PyInt 20), kw_align_grids := Some True\<rparr>)
   = Inl (TypeError (''object of type '' @ CHR 0x27 # ''int'' @ CHR 0x27 # '' has no len()''))
   \<and> \<not> isl (DESHIFTER_init (example_env 0) example_image example_coreg
         (no_kwargs\<lparr>kw_out_gsd := Some (PySeq [20, 20]), kw_align_grids := Some True\<rparr>))
   \<and> self_out_grid (example_engine example_coreg
         (no_kwargs\<lparr>kw_out_gsd := Some (PySeq [20, 20]), kw_align_grids := Some True\<rparr>))
      = ((0, 20), (300, 280))"
  by code_simp

text \<open>
  C10. If verbose mode is requested, the object built has \<^verbatim>\<open>v\<close> true and \<^verbatim>\<open>q\<close> false,
  whatever was passed as \<^verbatim>\<open>q\<close>.
\<close>

theorem verbose_forces_quiet_off:
  "kw_v kwargs = Some True \<Longrightarrow> DESHIFTER_init env im2shift coreg_results kwargs = Inr self
   \<Longrightarrow> self_v self \<and> \<not> self_q self"
  by (auto simp: DESHIFTER_init_def kwargs_get_def Let_def split: sum.splits if_splits)

text \<open>Verbose and quiet mode requested together for the example image.\<close>

theorem verbose_forces_quiet_off_witness:
  "\<not> isl (DESHIFTER_init (example_env 0) example_image example_coreg
            (no_kwargs\<lparr>kw_v := Some True, kw_q := Some True\<rparr>))
   \<and> self_v (example_engine example_coreg (no_kwargs\<lparr>kw_v := Some True, kw_q := Some True\<rparr>))
   \<and> \<not> self_q (example_engine example_coreg (no_kwargs\<lparr>kw_v := Some True, kw_q := Some True\<rparr>))"
proof -
  have c: "\<not> isl (DESHIFTER_init (example_env 0) example_image example_coreg
            (no_kwargs\<lparr>kw_v := Some True, kw_q := Some True\<rparr>))"
    by code_simp
  then have i: "DESHIFTER_init (example_env 0) example_image example_coreg
            (no_kwargs\<lparr>kw_v := Some True, kw_q := Some True\<rparr>)
          = Inr (example_engine example_coreg (no_kwargs\<lparr>kw_v := Some True, kw_q := Some True\<rparr>))"
    by (simp add: example_engine_def)
  have v: "kw_v (no_kwargs\<lparr>kw_v := Some True, kw_q := Some True\<rparr>) = Some True"
    by simp
  show ?thesis using verbose_forces_quiet_off [OF v i] c by simp
qed

lemma init_rejects_name:
  assumes "get_out_grid im2shift (cr_reference_geotransform coreg_results)
             (cr_reference_grid coreg_results) (kwargs_get (kw_align_grids kwargs) False) kwargs
           = Inr out_grid"
      and "kwargs_get (kw_resamp_alg kwargs) ''cubic'' \<notin> set (map fst dict_rspAlg_rsp_Int)"
  shows "\<exists>msg. DESHIFTER_init env im2shift coreg_results kwargs = Inl (AssertionError msg)"
  using assms by (simp add: DESHIFTER_init_def Let_def)

lemma init_rejects_warp:
  assumes "get_out_grid im2shift (cr_reference_geotransform coreg_results)
             (cr_reference_grid coreg_results) (kwargs_get (kw_align_grids kwargs) False) kwargs
           = Inr out_grid"
      and "kwargs_get (kw_warp_alg kwargs) ''GDAL_lib'' \<notin> set [''GDAL_cmd'', ''GDAL_lib'']"
  shows "\<exists>msg. DESHIFTER_init env im2shift coreg_results kwargs = Inl (AssertionError msg)"
proof (cases "kwargs_get (kw_resamp_alg kwargs) ''cubic'' \<in> set (map fst dict_rspAlg_rsp_Int)")
  case True
  with assms show ?thesis by (simp add: DESHIFTER_init_def Let_def del: set_simps)
next
  case False
  with assms(1) show ?thesis by (rule init_rejects_name)
qed

lemma init_accepts:
  assumes "get_out_grid im2shift (cr_reference_geotransform coreg_results)
             (cr_reference_grid coreg_results) (kwargs_get (kw_align_grids kwargs) False) kwargs
           = Inr out_grid"
      and "kwargs_get (kw_resamp_alg kwargs) ''cubic'' \<in> set (map fst dict_rspAlg_rsp_Int)"
      and "kwargs_get (kw_warp_alg kwargs) ''GDAL_lib'' \<in> set [''GDAL_cmd'', ''GDAL_lib'']"
  shows "\<exists>self. DESHIFTER_init env im2shift coreg_results kwargs = Inr self"
  using assms by (simp add: DESHIFTER_init_def Let_def del: set_simps)

lemma rsp_names:
  "set (map fst dict_rspAlg_rsp_Int) =
     {''nearest'', ''bilinear'', ''cubic'', ''cubic_spline'', ''lanczos'', ''average'', ''mode'',
      ''max'', ''min'', ''med'', ''q1'', ''q2''}"
  by (simp add: dict_rspAlg_rsp_Int_def)

lemma median_not_a_name: "''median'' \<notin> set (map fst dict_rspAlg_rsp_Int)"
  by (simp add: dict_rspAlg_rsp_Int_def)

text \<open>
  C6, as stated, fails: the name \<^verbatim>\<open>median\<close> is not accepted. The dictionary and the
  docstring of the constructor both call this algorithm \<^verbatim>\<open>med\<close>.
\<close>

theorem median_rejected_counterexample:
  "DESHIFTER_init (example_env 0) example_image example_coreg
     (no_kwargs\<lparr>kw_resamp_alg := Some ''median''\<rparr>)
   = Inl (AssertionError
            (CHR 0x27 # ''median'' @ CHR 0x27 # '' is not a supported resampling algorithm.''))"
  by code_simp

text \<open>
  C6, amended. Once the output grid has been derived, the constructor builds an object
  whenever the resampling-algorithm name is one of nearest, bilinear, cubic, cubic_spline,
  lanczos, average, mode, max, min, med, q1 and the warp-strategy name is one of GDAL_cmd,
  GDAL_lib; it raises an assertion error whenever the resampling-algorithm name is none of
  these eleven and neither q2 nor q3, or the warp-strategy name is outside
  {GDAL_cmd, GDAL_lib}; in particular the name median is rejected. Names left out take
  their defaults, cubic and GDAL_lib. Nothing is said about the names q2 and q3.
\<close>

theorem option_names_checked:
  assumes "get_out_grid im2shift (cr_reference_geotransform coreg_results)
             (cr_reference_grid coreg_results) (kwargs_get (kw_align_grids kwargs) False) kwargs
           = Inr out_grid"
  shows "(kwargs_get (kw_resamp_alg kwargs) ''cubic''
            \<in> {''nearest'', ''bilinear'', ''cubic'', ''cubic_spline'', ''lanczos'',
               ''average'', ''mode'', ''max'', ''min'', ''med'', ''q1''}
          \<and> kwargs_get (kw_warp_alg kwargs) ''GDAL_lib'' \<in> {''GDAL_cmd'', ''GDAL_lib''}
          \<longrightarrow> (\<exists>self. DESHIFTER_init env im2shift coreg_results kwargs = Inr self))
       \<and> (kwargs_get (kw_resamp_alg kwargs) ''cubic''
            \<notin> {''nearest'', ''bilinear'', ''cubic'', ''cubic_spline'', ''lanczos'',
               ''average'', ''mode'', ''max'', ''min'', ''med'', ''q1'', ''q2'', ''q3''}
          \<or> kwargs_get (kw_warp_alg kwargs) ''GDAL_lib'' \<notin> {''GDAL_cmd'', ''GDAL_lib''}
          \<longrightarrow> (\<exists>msg. DESHIFTER_init env im2shift coreg_results kwargs = Inl (AssertionError msg)))
       \<and> (kwargs_get (kw_resamp_alg kwargs) ''cubic'' = ''median''
          \<longrightarrow> (\<exists>msg. DESHIFTER_init env im2shift coreg_results kwargs = Inl (AssertionError msg)))"
proof (intro conjI impI)
  assume "kwargs_get (kw_resamp_alg kwargs) ''cubic''
            \<in> {''nearest'', ''bilinear'', ''cubic'', ''cubic_spline'', ''lanczos'',
               ''average'', ''mode'', ''max'', ''min'', ''med'', ''q1''}
          \<and> kwargs_get (kw_warp_alg kwargs) ''GDAL_lib'' \<in> {''GDAL_cmd'', ''GDAL_lib''}"
  then have n: "kwargs_get (kw_resamp_alg kwargs) ''cubic'' \<in> set (map fst dict_rspAlg_rsp_Int)"
    and w: "kwargs_get (kw_warp_alg kwargs) ''GDAL_lib'' \<in> {''GDAL_cmd'', ''GDAL_lib''}"
    unfolding rsp_names by blast+
  from w have "kwargs_get (kw_warp_alg kwargs) ''GDAL_lib'' \<in> set [''GDAL_cmd'', ''GDAL_lib'']"
    by simp
  with assms n show "\<exists>self. DESHIFTER_init env im2shift coreg_results kwargs = Inr self"
    by (rule init_accepts)
next
  assume "kwargs_get (kw_resamp_alg kwargs) ''cubic''
            \<notin> {''nearest'', ''bilinear'', ''cubic'', ''cubic_spline'', ''lanczos'',
               ''average'', ''mode'', ''max'', ''min'', ''med'', ''q1'', ''q2'', ''q3''}
          \<or> kwargs_get (kw_warp_alg kwargs) ''GDAL_lib'' \<notin> {''GDAL_cmd'', ''GDAL_lib''}"
  then consider "kwargs_get (kw_resamp_alg kwargs) ''cubic'' \<notin> set (map fst dict_rspAlg_rsp_Int)"
    | "kwargs_get (kw_warp_alg kwargs) ''GDAL_lib'' \<notin> {''GDAL_cmd'', ''GDAL_lib''}"
    unfolding rsp_names by blast
  then show "\<exists>msg. DESHIFTER_init env im2shift coreg_results kwargs = Inl (AssertionError msg)"
  proof cases
    case 1
    with assms show ?thesis by (rule init_rejects_name)
  next
    case 2
    then have "kwargs_get (kw_warp_alg kwargs) ''GDAL_lib'' \<notin> set [''GDAL_cmd'', ''GDAL_lib'']"
      by simp
    with assms show ?thesis by (rule init_rejects_warp)
  qed
next
  assume "kwargs_get (kw_resamp_alg kwargs) ''cubic'' = ''median''"
  then have "kwargs_get (kw_resamp_alg kwargs) ''cubic'' \<notin> set (map fst dict_rspAlg_rsp_Int)"
    using median_not_a_name by simp
  with assms show "\<exists>msg. DESHIFTER_init env im2shift coreg_results kwargs = Inl (AssertionError msg)"
    by (rule init_rejects_name)
qed


text \<open>An accepted pair of names, the name median, and an unknown warp strategy, for the
  example image.\<close>

theorem option_names_checked_witness:
  "(\<exists>self. DESHIFTER_init (example_env 0) example_image example_coreg
             (no_kwargs\<lparr>kw_resamp_alg := Some ''med'', kw_warp_alg := Some ''GDAL_cmd''\<rparr>) = Inr self)
   \<and> (\<exists>msg. DESHIFTER_init (example_env 0) example_image example_coreg
             (no_kwargs\<lparr>kw_resamp_alg := Some ''median''\<rparr>) = Inl (AssertionError msg))
   \<and> (\<exists>msg. DESHIFTER_init (example_env 0) example_image example_coreg
             (no_kwargs\<lparr>kw_warp_alg := Some ''GDAL''\<rparr>) = Inl (AssertionError msg))"
proof -
  have g1: "get_out_grid example_image (cr_reference_geotransform example_coreg)
             (cr_reference_grid example_coreg)
             (kwargs_get (kw_align_grids
                (no_kwargs\<lparr>kw_resamp_alg := Some ''med'', kw_warp_alg := Some ''GDAL_cmd''\<rparr>)) False)
             (no_kwargs\<lparr>kw_resamp_alg := Some ''med'', kw_warp_alg := Some ''GDAL_cmd''\<rparr>)
           = Inr ((0, 10), (200, 190))"
    by code_simp
  have g2: "get_out_grid example_image (cr_reference_geotransform example_coreg)
             (cr_reference_grid example_coreg)
             (kwargs_get (kw_align_grids (no_kwargs\<lparr>kw_resamp_alg := Some ''median''\<rparr>)) False)
             (no_kwargs\<lparr>kw_resamp_alg := Some ''median''\<rparr>)
           = Inr ((0, 10), (200, 190))"
    by code_simp
  have g3: "get_out_grid example_image (cr_reference_geotransform example_coreg)
             (cr_reference_grid example_coreg)
             (kwargs_get (kw_align_grids (no_kwargs\<lparr>kw_warp_alg := Some ''GDAL''\<rparr>)) False)
             (no_kwargs\<lparr>kw_warp_alg := Some ''GDAL''\<rparr>)
           = Inr ((0, 10), (200, 190))"
    by code_simp
  show ?thesis
    using option_names_checked [OF g1, of "example_env 0"]
          option_names_checked [OF g2, of "example_env 0"]
          option_names_checked [OF g3, of "example_env 0"]
    by (simp add: kwargs_get_def)
qed

section \<open>Shift correction: properties\<close>

lemma get_out_extent_snd:
  "snd (get_out_extent self) = self\<lparr>self_clipextent := Some (resolve_clipextent self)\<rparr>"
  by (simp add: get_out_extent_def Let_def)

lemma run_gdalwarp_self:
  assumes "run_gdalwarp env self world = (path_tmp, cmd, self1, exitcode, files2)"
  shows "self1 = self\<lparr>self_clipextent := Some (resolve_clipextent self)\<rparr>"
  using assms by (simp add: run_gdalwarp_def get_out_extent_def Let_def split: prod.splits)

lemma dict_lookup:
  "name \<in> set (map fst dict_rspAlg_rsp_Int) \<Longrightarrow> \<exists>code. map_of dict_rspAlg_rsp_Int name = Some code"
  by (cases "map_of dict_rspAlg_rsp_Int name") (simp_all add: map_of_eq_None_iff)

lemma no_resampling_path_flags:
  "\<exists>r self' world'.
     no_resampling_path env self world = (Inr r, self', world')
     \<and> res_is_shifted r \<and> \<not> res_is_resampled r
     \<and> self_is_shifted self' \<and> \<not> self_is_resampled self'"
  by (simp add: no_resampling_path_def get_out_extent_def deshift_results_def Let_def
           split: prod.splits)

lemma resampling_GDAL_cmd_flags:
  assumes "resampling_GDAL_cmd env self world = (Inr r, self', world')"
  shows "res_is_shifted r \<and> res_is_resampled r \<and> self_is_shifted self' \<and> self_is_resampled self'"
  using assms
  by (auto simp: resampling_GDAL_cmd_def deshift_results_def Let_def split: prod.splits if_splits)

lemma resampling_GDAL_lib_flags:
  assumes "resampling_GDAL_lib env self world = (Inr r, self', world')"
  shows "res_is_shifted r \<and> res_is_resampled r \<and> self_is_shifted self' \<and> self_is_resampled self'"
  using assms
  by (auto simp: resampling_GDAL_lib_def deshift_results_def Let_def split: prod.splits sum.splits)

lemma resampling_path_flags:
  assumes "self_warpAlg self = ''GDAL_cmd'' \<or> self_warpAlg self = ''GDAL_lib''"
      and "resampling_path env self world = (Inr r, self', world')"
  shows "res_is_shifted r \<and> res_is_resampled r \<and> self_is_shifted self' \<and> self_is_resampled self'"
proof (cases "self_warpAlg self = ''GDAL_cmd''")
  case True
  with assms(2) have "resampling_GDAL_cmd env self world = (Inr r, self', world')"
    by (simp add: resampling_path_def)
  then show ?thesis by (rule resampling_GDAL_cmd_flags)
next
  case False
  with assms have "resampling_GDAL_lib env self world = (Inr r, self', world')"
    by (simp add: resampling_path_def)
  then show ?thesis by (rule resampling_GDAL_lib_flags)
qed

lemma paths_differ:
  assumes "self_warpAlg self = ''GDAL_cmd'' \<or> self_warpAlg self = ''GDAL_lib''"
  shows "no_resampling_path env self world \<noteq> resampling_path env self world"
proof
  assume e: "no_resampling_path env self world = resampling_path env self world"
  obtain r self' world' where
    n: "no_resampling_path env self world = (Inr r, self', world')" and f: "\<not> res_is_resampled r"
    using no_resampling_path_flags [of env self world] by blast
  from n e have "resampling_path env self world = (Inr r, self', world')" by simp
  with assms have "res_is_resampled r" using resampling_path_flags by blast
  with f show False by simp
qed

text \<open>The constructor admits only the two warp strategies, and \<^verbatim>\<open>correct_shifts\<close>
  never changes the strategy of an object.\<close>

lemma init_warpAlg:
  "DESHIFTER_init env im2shift coreg_results kwargs = Inr self
   \<Longrightarrow> self_warpAlg self = ''GDAL_cmd'' \<or> self_warpAlg self = ''GDAL_lib''"
  by (auto simp: DESHIFTER_init_def Let_def split: sum.splits if_splits)

lemma correct_shifts_warpAlg:
  "correct_shifts env self world = (r, self', world') \<Longrightarrow> self_warpAlg self' = self_warpAlg self"
  by (auto simp: correct_shifts_def no_resampling_path_def resampling_path_def
                 resampling_GDAL_cmd_def run_gdalwarp_def resampling_GDAL_lib_def
                 GDAL_lib_warp_call_def get_out_extent_def Let_def
           split: if_splits prod.splits sum.splits option.splits)

text \<open>
  C4. For an object whose warp strategy is one of the two that the constructor admits,
  \<^verbatim>\<open>correct_shifts\<close> runs the no-resampling branch if and only if the reference and image
  projections are equal, the image geotransform coincides with the output grid and
  \<^verbatim>\<open>align_grids\<close> is false, and the resampling branch if and only if not. On every run
  that returns, \<^verbatim>\<open>is_shifted\<close> is true, and \<^verbatim>\<open>is_resampled\<close> is true exactly when the
  resampling branch ran and false exactly when the no-resampling branch ran, in the
  returned record and in the object.
\<close>

theorem path_choice_and_flags:
  assumes "self_warpAlg self = ''GDAL_cmd'' \<or> self_warpAlg self = ''GDAL_lib''"
  shows "(correct_shifts env self world = no_resampling_path env self world
            \<longleftrightarrow> prj_equal env (self_ref_prj self) (self_shift_prj self)
                \<and> is_coord_grid_equal env (self_shift_gt self)
                      (fst (self_out_grid self)) (snd (self_out_grid self))
                \<and> \<not> self_align_grids self)
       \<and> (correct_shifts env self world = resampling_path env self world
            \<longleftrightarrow> \<not> (prj_equal env (self_ref_prj self) (self_shift_prj self)
                   \<and> is_coord_grid_equal env (self_shift_gt self)
                         (fst (self_out_grid self)) (snd (self_out_grid self))
                   \<and> \<not> self_align_grids self))
       \<and> (\<forall>r self' world'.
             correct_shifts env self world = (Inr r, self', world')
             \<longrightarrow> res_is_shifted r \<and> self_is_shifted self'
               \<and> (res_is_resampled r
                    \<longleftrightarrow> correct_shifts env self world = resampling_path env self world)
               \<and> (\<not> res_is_resampled r
                    \<longleftrightarrow> correct_shifts env self world = no_resampling_path env self world)
               \<and> self_is_resampled self' = res_is_resampled r)"
proof (cases "no_resampling_needed env self")
  case True
  then have cs: "correct_shifts env self world = no_resampling_path env self world"
    by (simp add: correct_shifts_def)
  have d: "no_resampling_path env self world \<noteq> resampling_path env self world"
    using assms by (rule paths_differ)
  obtain r0 s0 w0 where
    n: "no_resampling_path env self world = (Inr r0, s0, w0)"
    and f: "res_is_shifted r0" "\<not> res_is_resampled r0" "self_is_shifted s0" "\<not> self_is_resampled s0"
    using no_resampling_path_flags [of env self world] by blast
  from True have g: "prj_equal env (self_ref_prj self) (self_shift_prj self)
                \<and> is_coord_grid_equal env (self_shift_gt self)
                      (fst (self_out_grid self)) (snd (self_out_grid self))
                \<and> \<not> self_align_grids self"
    by (simp add: no_resampling_needed_def)
  show ?thesis using d f g unfolding cs n by auto
next
  case False
  then have cs: "correct_shifts env self world = resampling_path env self world"
    by (simp add: correct_shifts_def)
  have d: "resampling_path env self world \<noteq> no_resampling_path env self world"
    using paths_differ [OF assms, of env world] by simp
  from False have g: "\<not> (prj_equal env (self_ref_prj self) (self_shift_prj self)
                \<and> is_coord_grid_equal env (self_shift_gt self)
                      (fst (self_out_grid self)) (snd (self_out_grid self))
                \<and> \<not> self_align_grids self)"
    by (simp add: no_resampling_needed_def)
  have fl: "\<And>r self' world'. resampling_path env self world = (Inr r, self', world')
      \<Longrightarrow> res_is_shifted r \<and> res_is_resampled r \<and> self_is_shifted self' \<and> self_is_resampled self'"
    using assms by (rule resampling_path_flags)
  show ?thesis unfolding cs using d g fl by blast
qed

text \<open>The example image with default options takes the no-resampling branch, and with
  \<^verbatim>\<open>align_grids=True\<close> the resampling branch.\<close>

theorem path_choice_and_flags_witness:
  "correct_shifts (example_env 0) (example_engine example_coreg no_kwargs) empty_world
     = no_resampling_path (example_env 0) (example_engine example_coreg no_kwargs) empty_world
   \<and> res_is_shifted (projr (fst (correct_shifts (example_env 0)
         (example_engine example_coreg no_kwargs) empty_world)))
   \<and> \<not> res_is_resampled (projr (fst (correct_shifts (example_env 0)
         (example_engine example_coreg no_kwargs) empty_world)))
   \<and> correct_shifts (example_env 0)
         (example_engine example_coreg (no_kwargs\<lparr>kw_align_grids := Some True\<rparr>)) empty_world
     = resampling_path (example_env 0)
         (example_engine example_coreg (no_kwargs\<lparr>kw_align_grids := Some True\<rparr>)) empty_world
   \<and> res_is_shifted (projr (fst (correct_shifts (example_env 0)
         (example_engine example_coreg (no_kwargs\<lparr>kw_align_grids := Some True\<rparr>)) empty_world)))
   \<and> res_is_resampled (projr (fst (correct_shifts (example_env 0)
         (example_engine example_coreg (no_kwargs\<lparr>kw_align_grids := Some True\<rparr>)) empty_world)))"
proof -
  let ?E = "example_env 0"
  let ?S = "example_engine example_coreg no_kwargs"
  let ?T = "example_engine example_coreg (no_kwargs\<lparr>kw_align_grids := Some True\<rparr>)"
  let ?X = "correct_shifts ?E ?S empty_world"
  let ?Y = "correct_shifts ?E ?T empty_world"
  have ws: "self_warpAlg ?S = ''GDAL_cmd'' \<or> self_warpAlg ?S = ''GDAL_lib''" by code_simp
  have wt: "self_warpAlg ?T = ''GDAL_cmd'' \<or> self_warpAlg ?T = ''GDAL_lib''" by code_simp
  have gs: "prj_equal ?E (self_ref_prj ?S) (self_shift_prj ?S)
            \<and> is_coord_grid_equal ?E (self_shift_gt ?S) (fst (self_out_grid ?S)) (snd (self_out_grid ?S))
            \<and> \<not> self_align_grids ?S"
    by code_simp
  have gt: "\<not> (prj_equal ?E (self_ref_prj ?T) (self_shift_prj ?T)
            \<and> is_coord_grid_equal ?E (self_shift_gt ?T) (fst (self_out_grid ?T)) (snd (self_out_grid ?T))
            \<and> \<not> self_align_grids ?T)"
    by code_simp
  have "\<not> isl (fst ?X)" by code_simp
  then have xs: "?X = (Inr (projr (fst ?X)), fst (snd ?X), snd (snd ?X))"
    by (simp add: prod_eq_iff)
  have "\<not> isl (fst ?Y)" by code_simp
  then have ys: "?Y = (Inr (projr (fst ?Y)), fst (snd ?Y), snd (snd ?Y))"
    by (simp add: prod_eq_iff)
  note a = path_choice_and_flags [OF ws, of ?E empty_world]
  note b = path_choice_and_flags [OF wt, of ?E empty_world]
  from a gs xs have "?X = no_resampling_path ?E ?S empty_world
      \<and> res_is_shifted (projr (fst ?X)) \<and> \<not> res_is_resampled (projr (fst ?X))"
    by blast
  moreover from b gt ys have "?Y = resampling_path ?E ?T empty_world
      \<and> res_is_shifted (projr (fst ?Y)) \<and> res_is_resampled (projr (fst ?Y))"
    by blast
  ultimately show ?thesis by blast
qed

text \<open>
  C7, as stated, fails: the test is \<^verbatim>\<open>exitcode != 1\<close>. When the warp process exits with
  code 2 and the output file exists, no error is raised and the result is read back.
\<close>

theorem exit_code_two_counterexample:
  "\<not> isl (DESHIFTER_init (example_env 0) example_image example_coreg
         (no_kwargs\<lparr>kw_warp_alg := Some ''GDAL_cmd'', kw_align_grids := Some True\<rparr>))
   \<and> \<not> no_resampling_needed (example_env 2) (example_engine example_coreg
         (no_kwargs\<lparr>kw_warp_alg := Some ''GDAL_cmd'', kw_align_grids := Some True\<rparr>))
   \<and> fst (snd (snd (snd (run_gdalwarp (example_env 2)
        (example_engine example_coreg
           (no_kwargs\<lparr>kw_warp_alg := Some ''GDAL_cmd'', kw_align_grids := Some True\<rparr>))
        empty_world)))) = 2
   \<and> \<not> isl (fst (correct_shifts (example_env 2)
        (example_engine example_coreg
           (no_kwargs\<lparr>kw_warp_alg := Some ''GDAL_cmd'', kw_align_grids := Some True\<rparr>))
        empty_world))
   \<and> self_tracked_errors (fst (snd (correct_shifts (example_env 2)
        (example_engine example_coreg
           (no_kwargs\<lparr>kw_warp_alg := Some ''GDAL_cmd'', kw_align_grids := Some True\<rparr>))
        empty_world))) = []"
  by code_simp

text \<open>
  C7, amended. In the external-process strategy, \<^verbatim>\<open>correct_shifts\<close> raises the error
  'Resampling failed.', after appending it to \<^verbatim>\<open>tracked_errors\<close> and deleting the
  temporary file if it exists, whenever the warp process exits with code 1 or the output
  file is missing; on any other exit code with an existing output file it returns, with
  the array read back from the file, nothing appended to \<^verbatim>\<open>tracked_errors\<close> and the
  temporary file deleted.
\<close>

theorem GDAL_cmd_fails_on_exit_code_one_or_no_output:
  assumes "self_warpAlg self = ''GDAL_cmd''"
      and "\<not> no_resampling_needed env self"
      and "run_gdalwarp env self world = (path_tmp, cmd, self1, exitcode, files2)"
  shows "(exitcode = 1 \<or> path_tmp \<notin> set files2 \<longrightarrow>
            (\<exists>self' world'.
               correct_shifts env self world = (Inl (RuntimeError ''Resampling failed.''), self', world')
               \<and> self_tracked_errors self'
                   = self_tracked_errors self @ [RuntimeError ''Resampling failed.'']
               \<and> path_tmp \<notin> set (files world')))
       \<and> (exitcode \<noteq> 1 \<and> path_tmp \<in> set files2 \<longrightarrow>
            (\<exists>self' world'.
               correct_shifts env self world = (Inr (deshift_results self'), self', world')
               \<and> self_arr_shifted self' = Some (fst (read_tmp env cmd (self_band2process self)))
               \<and> self_tracked_errors self' = self_tracked_errors self
               \<and> path_tmp \<notin> set (files world')))"
proof -
  have s1: "self1 = self\<lparr>self_clipextent := Some (resolve_clipextent self)\<rparr>"
    using assms(3) by (rule run_gdalwarp_self)
  have cs: "correct_shifts env self world = resampling_GDAL_cmd env self world"
    using assms(1,2) by (simp add: correct_shifts_def resampling_path_def)
  show ?thesis
  proof (intro conjI impI)
    assume "exitcode = 1 \<or> path_tmp \<notin> set files2"
    then show "\<exists>self' world'.
               correct_shifts env self world = (Inl (RuntimeError ''Resampling failed.''), self', world')
               \<and> self_tracked_errors self'
                   = self_tracked_errors self @ [RuntimeError ''Resampling failed.'']
               \<and> path_tmp \<notin> set (files world')"
      unfolding cs resampling_GDAL_cmd_def assms(3) by (elim disjE) (simp_all add: s1 Let_def)
  next
    assume "exitcode \<noteq> 1 \<and> path_tmp \<in> set files2"
    then show "\<exists>self' world'.
               correct_shifts env self world = (Inr (deshift_results self'), self', world')
               \<and> self_arr_shifted self' = Some (fst (read_tmp env cmd (self_band2process self)))
               \<and> self_tracked_errors self' = self_tracked_errors self
               \<and> path_tmp \<notin> set (files world')"
      unfolding cs resampling_GDAL_cmd_def assms(3)
      by (simp add: s1 Let_def split: prod.splits)
  qed
qed

text \<open>The example image warped by a process that exits with code 1, and by one that
  exits with code 0.\<close>

theorem GDAL_cmd_fails_on_exit_code_one_or_no_output_witness:
  "(\<exists>self' world'.
      correct_shifts (example_env 1)
        (example_engine example_coreg
           (no_kwargs\<lparr>kw_warp_alg := Some ''GDAL_cmd'', kw_align_grids := Some True\<rparr>))
        empty_world
      = (Inl (RuntimeError ''Resampling failed.''), self', world')
      \<and> self_tracked_errors self' = [RuntimeError ''Resampling failed.'']
      \<and> ''/dev/shm/CoReg_Sat0001VRT'' \<notin> set (files world'))
   \<and> (\<exists>self' world'.
      correct_shifts (example_env 0)
        (example_engine example_coreg
           (no_kwargs\<lparr>kw_warp_alg := Some ''GDAL_cmd'', kw_align_grids := Some True\<rparr>))
        empty_world
      = (Inr (deshift_results self'), self', world')
      \<and> self_arr_shifted self' = Some [(20, 10, 180, 190)]
      \<and> self_tracked_errors self' = []
      \<and> ''/dev/shm/CoReg_Sat0001VRT'' \<notin> set (files world'))"
proof -
  let ?S = "example_engine example_coreg
              (no_kwargs\<lparr>kw_warp_alg := Some ''GDAL_cmd'', kw_align_grids := Some True\<rparr>)"
  let ?R1 = "run_gdalwarp (example_env 1) ?S empty_world"
  let ?R0 = "run_gdalwarp (example_env 0) ?S empty_world"
  have w: "self_warpAlg ?S = ''GDAL_cmd''" by code_simp
  have te: "self_tracked_errors ?S = []" by code_simp
  have n1: "\<not> no_resampling_needed (example_env 1) ?S" by code_simp
  have n0: "\<not> no_resampling_needed (example_env 0) ?S" by code_simp
  have r1: "?R1 = (fst ?R1, fst (snd ?R1), fst (snd (snd ?R1)), fst (snd (snd (snd ?R1))),
                   snd (snd (snd (snd ?R1))))"
    by simp
  have r0: "?R0 = (fst ?R0, fst (snd ?R0), fst (snd (snd ?R0)), fst (snd (snd (snd ?R0))),
                   snd (snd (snd (snd ?R0))))"
    by simp
  have p1: "fst ?R1 = ''/dev/shm/CoReg_Sat0001VRT''" by code_simp
  have p0: "fst ?R0 = ''/dev/shm/CoReg_Sat0001VRT''" by code_simp
  have e1: "fst (snd (snd (snd ?R1))) = 1" by code_simp
  have e0: "fst (snd (snd (snd ?R0))) \<noteq> 1 \<and> fst ?R0 \<in> set (snd (snd (snd (snd ?R0))))"
    by code_simp
  have a0: "fst (read_tmp (example_env 0) (fst (snd ?R0)) (self_band2process ?S))
            = [(20, 10, 180, 190)]"
    by code_simp
  from GDAL_cmd_fails_on_exit_code_one_or_no_output [OF w n1 r1] e1
  have "\<exists>self' world'.
      correct_shifts (example_env 1) ?S empty_world
      = (Inl (RuntimeError ''Resampling failed.''), self', world')
      \<and> self_tracked_errors self' = self_tracked_errors ?S @ [RuntimeError ''Resampling failed.'']
      \<and> fst ?R1 \<notin> set (files world')"
    by blast
  then have A: "\<exists>self' world'.
      correct_shifts (example_env 1) ?S empty_world
      = (Inl (RuntimeError ''Resampling failed.''), self', world')
      \<and> self_tracked_errors self' = [RuntimeError ''Resampling failed.'']
      \<and> ''/dev/shm/CoReg_Sat0001VRT'' \<notin> set (files world')"
    unfolding te p1 by simp
  from GDAL_cmd_fails_on_exit_code_one_or_no_output [OF w n0 r0] e0
  have "\<exists>self' world'.
      correct_shifts (example_env 0) ?S empty_world = (Inr (deshift_results self'), self', world')
      \<and> self_arr_shifted self' = Some (fst (read_tmp (example_env 0) (fst (snd ?R0)) (self_band2process ?S)))
      \<and> self_tracked_errors self' = self_tracked_errors ?S
      \<and> fst ?R0 \<notin> set (files world')"
    by blast
  then have B: "\<exists>self' world'.
      correct_shifts (example_env 0) ?S empty_world = (Inr (deshift_results self'), self', world')
      \<and> self_arr_shifted self' = Some [(20, 10, 180, 190)]
      \<and> self_tracked_errors self' = []
      \<and> ''/dev/shm/CoReg_Sat0001VRT'' \<notin> set (files world')"
    unfolding te p0 a0 by simp
  from A B show ?thesis by blast
qed

text \<open>
  C8, as stated, fails. With clipping, the first call stores the extent it resolved, the
  footprint, in \<^verbatim>\<open>self.clipextent\<close> and the geotransform of the clipped raster in
  \<^verbatim>\<open>self.updated_gt\<close>; the second call on the same object resolves the bounding box
  instead and returns a different record. Both calls take the no-resampling branch.
\<close>

theorem second_call_differs_counterexample:
  "\<not> isl (DESHIFTER_init (example_env 0) example_image example_coreg no_kwargs)
   \<and> no_resampling_needed (example_env 0) (example_engine example_coreg no_kwargs)
   \<and> no_resampling_needed (example_env 0)
        (fst (snd (correct_shifts (example_env 0)
           (example_engine example_coreg no_kwargs) empty_world)))
   \<and> fst (correct_shifts (example_env 0)
            (fst (snd (correct_shifts (example_env 0)
               (example_engine example_coreg no_kwargs) empty_world)))
            (snd (snd (correct_shifts (example_env 0)
               (example_engine example_coreg no_kwargs) empty_world))))
      \<noteq> fst (correct_shifts (example_env 0) (example_engine example_coreg no_kwargs) empty_world)"
  by code_simp

text \<open>
  C8, amended. When \<^verbatim>\<open>cliptoextent\<close> is false, running the no-resampling path twice
  yields identical records: a second call on the same object after the first takes the
  no-resampling path again and returns the same record, which holds the source array
  unchanged.
\<close>

theorem no_resampling_twice_without_clipping:
  assumes "no_resampling_needed env self"
      and "\<not> self_cliptoextent self"
      and "correct_shifts env self world = (r1, self1, world1)"
      and "correct_shifts env self1 world1 = (r2, self2, world2)"
  shows "no_resampling_needed env self1 \<and> r2 = r1
         \<and> (\<exists>rec. r1 = Inr rec \<and> res_is_shifted rec \<and> \<not> res_is_resampled rec
                   \<and> res_arr_shifted rec = Some (ga_arr (self_im2shift self)))"
proof -
  have c1: "no_resampling_path env self world = (r1, self1, world1)"
    using assms(1,3) by (simp add: correct_shifts_def)
  have s1: "self1 = self\<lparr>self_is_shifted := True, self_is_resampled := False,
                self_clipextent := Some (resolve_clipextent self),
                self_arr_shifted := Some (ga_arr (self_im2shift self)),
                self_GeoArray_shifted := Some (ga_arr (self_im2shift self), self_shift_gt self,
                                               self_updated_projection self)\<rparr>"
    and r1: "r1 = Inr (deshift_results self1)"
    using c1 assms(2)
    by (auto simp: no_resampling_path_def get_out_extent_def resolve_clipextent_def Let_def
             split: prod.splits)
  have n1: "no_resampling_needed env self1"
    using assms(1) by (simp add: s1 no_resampling_needed_def)
  then have c2: "no_resampling_path env self1 world1 = (r2, self2, world2)"
    using assms(4) by (simp add: correct_shifts_def)
  have nc: "\<not> self_cliptoextent self1" using assms(2) by (simp add: s1)
  have r2: "r2 = Inr (deshift_results self2)" and s2: "deshift_results self2 = deshift_results self1"
    using c2 nc
    by (auto simp: s1 no_resampling_path_def get_out_extent_def resolve_clipextent_def Let_def
                   deshift_results_def
             split: prod.splits)
  show ?thesis using n1 r1 r2 s2 by (simp add: s1 deshift_results_def)
qed

text \<open>The example image with \<^verbatim>\<open>cliptoextent=False\<close>.\<close>

theorem no_resampling_twice_without_clipping_witness:
  "no_resampling_needed (example_env 0)
     (example_engine example_coreg (no_kwargs\<lparr>kw_cliptoextent := Some False\<rparr>))
   \<and> fst (correct_shifts (example_env 0)
        (fst (snd (correct_shifts (example_env 0)
           (example_engine example_coreg (no_kwargs\<lparr>kw_cliptoextent := Some False\<rparr>)) empty_world)))
        (snd (snd (correct_shifts (example_env 0)
           (example_engine example_coreg (no_kwargs\<lparr>kw_cliptoextent := Some False\<rparr>)) empty_world))))
     = fst (correct_shifts (example_env 0)
           (example_engine example_coreg (no_kwargs\<lparr>kw_cliptoextent := Some False\<rparr>)) empty_world)"
proof -
  let ?E = "example_env 0"
  let ?S = "example_engine example_coreg (no_kwargs\<lparr>kw_cliptoextent := Some False\<rparr>)"
  let ?X = "correct_shifts ?E ?S empty_world"
  let ?Y = "correct_shifts ?E (fst (snd ?X)) (snd (snd ?X))"
  have n: "no_resampling_needed ?E ?S" by code_simp
  have c: "\<not> self_cliptoextent ?S" by code_simp
  have x: "?X = (fst ?X, fst (snd ?X), snd (snd ?X))" by simp
  have y: "?Y = (fst ?Y, fst (snd ?Y), snd (snd ?Y))" by simp
  from no_resampling_twice_without_clipping [OF n c x y] n show ?thesis by blast
qed

text \<open>
  C9, as stated, fails for a GCP list that is present and empty: \<^verbatim>\<open>not self.GCPList\<close>
  holds for it, and the origin of the geotransform passed to the reprojection engine is
  overwritten with the updated origin.
\<close>

theorem empty_GCPList_counterexample:
  "\<not> isl (DESHIFTER_init (example_env 0) example_image (example_coreg\<lparr>cr_GCPList := Some []\<rparr>)
            (no_kwargs\<lparr>kw_align_grids := Some True\<rparr>))
   \<and> self_GCPList (example_engine (example_coreg\<lparr>cr_GCPList := Some []\<rparr>)
                      (no_kwargs\<lparr>kw_align_grids := Some True\<rparr>)) = Some []
   \<and> \<not> isl (GDAL_lib_warp_call (example_env 0)
              (example_engine (example_coreg\<lparr>cr_GCPList := Some []\<rparr>)
                 (no_kwargs\<lparr>kw_align_grids := Some True\<rparr>)))
   \<and> w_gt (fst (projr (GDAL_lib_warp_call (example_env 0)
              (example_engine (example_coreg\<lparr>cr_GCPList := Some []\<rparr>)
                 (no_kwargs\<lparr>kw_align_grids := Some True\<rparr>)))))
      \<noteq> self_shift_gt (example_engine (example_coreg\<lparr>cr_GCPList := Some []\<rparr>)
                 (no_kwargs\<lparr>kw_align_grids := Some True\<rparr>))"
  by code_simp

text \<open>
  C9, amended. For an object whose resampling algorithm is in the dictionary, the
  in-process path calls the reprojection engine. Whenever a non-empty GCP list is present
  in the coregistration results, the geotransform passed is the source geotransform with
  its origin untouched and the GCP list is passed with it; when no GCP list is present,
  the origin is overwritten with the updated origin and no GCP list is passed.
\<close>

theorem GDAL_lib_origin_and_GCPList:
  assumes "self_rspAlg self \<in> set (map fst dict_rspAlg_rsp_Int)"
  shows "\<exists>call self'.
           GDAL_lib_warp_call env self = Inr (call, self')
           \<and> (\<forall>gl. self_GCPList self = Some gl \<and> gl \<noteq> []
                 \<longrightarrow> w_gt call = self_shift_gt self \<and> w_gcpList call = Some gl)
           \<and> (self_GCPList self = None
                 \<longrightarrow> w_gt call = (self_shift_gt self)\<lparr>gt0 := gt0 (self_updated_gt self),
                                                      gt3 := gt3 (self_updated_gt self)\<rparr>
                   \<and> w_gcpList call = None)"
proof -
  obtain code where c: "map_of dict_rspAlg_rsp_Int (self_rspAlg self) = Some code"
    using dict_lookup [OF assms] by blast
  show ?thesis
  proof (cases "self_GCPList self = None \<or> self_GCPList self = Some []")
    case True
    then show ?thesis
      using c by (auto simp: GDAL_lib_warp_call_def Let_def get_out_extent_def)
  next
    case False
    then show ?thesis
      using c by (auto simp: GDAL_lib_warp_call_def Let_def get_out_extent_def)
  qed
qed

text \<open>The example image with one ground control point, and with none.\<close>

theorem GDAL_lib_origin_and_GCPList_witness:
  "w_gt (fst (projr (GDAL_lib_warp_call (example_env 0)
       (example_engine (example_coreg\<lparr>cr_GCPList := Some [(1, 1, 13, 192)]\<rparr>)
          (no_kwargs\<lparr>kw_align_grids := Some True\<rparr>)))))
     = example_gt
   \<and> w_gcpList (fst (projr (GDAL_lib_warp_call (example_env 0)
       (example_engine (example_coreg\<lparr>cr_GCPList := Some [(1, 1, 13, 192)]\<rparr>)
          (no_kwargs\<lparr>kw_align_grids := Some True\<rparr>)))))
     = Some [(1, 1, 13, 192)]
   \<and> w_gt (fst (projr (GDAL_lib_warp_call (example_env 0)
       (example_engine example_coreg (no_kwargs\<lparr>kw_align_grids := Some True\<rparr>)))))
     = example_gt\<lparr>gt0 := 3, gt3 := 202\<rparr>
   \<and> w_gcpList (fst (projr (GDAL_lib_warp_call (example_env 0)
       (example_engine example_coreg (no_kwargs\<lparr>kw_align_grids := Some True\<rparr>)))))
     = None"
proof -
  let ?E = "example_env 0"
  let ?S = "example_engine (example_coreg\<lparr>cr_GCPList := Some [(1, 1, 13, 192)]\<rparr>)
              (no_kwargs\<lparr>kw_align_grids := Some True\<rparr>)"
  let ?T = "example_engine example_coreg (no_kwargs\<lparr>kw_align_grids := Some True\<rparr>)"
  have ns: "self_rspAlg ?S \<in> set (map fst dict_rspAlg_rsp_Int)" by code_simp
  have nt: "self_rspAlg ?T \<in> set (map fst dict_rspAlg_rsp_Int)" by code_simp
  have gs: "self_GCPList ?S = Some [(1, 1, 13, 192)]" by code_simp
  have gt: "self_GCPList ?T = None" by code_simp
  have ss: "self_shift_gt ?S = example_gt" by code_simp
  have st: "(self_shift_gt ?T)\<lparr>gt0 := gt0 (self_updated_gt ?T), gt3 := gt3 (self_updated_gt ?T)\<rparr>
            = example_gt\<lparr>gt0 := 3, gt3 := 202\<rparr>"
    by code_simp
  from GDAL_lib_origin_and_GCPList [OF ns, of ?E] gs
  have A: "w_gt (fst (projr (GDAL_lib_warp_call ?E ?S))) = self_shift_gt ?S
           \<and> w_gcpList (fst (projr (GDAL_lib_warp_call ?E ?S))) = Some [(1, 1, 13, 192)]"
    by auto
  from GDAL_lib_origin_and_GCPList [OF nt, of ?E] gt
  have B: "w_gt (fst (projr (GDAL_lib_warp_call ?E ?T)))
             = (self_shift_gt ?T)\<lparr>gt0 := gt0 (self_updated_gt ?T), gt3 := gt3 (self_updated_gt ?T)\<rparr>
           \<and> w_gcpList (fst (projr (GDAL_lib_warp_call ?E ?T))) = None"
    by auto
  from A B show ?thesis unfolding ss st by blast
qed

end
